theory Spec2Isabelle
  imports Main "HOL-Library.Multiset" "HOL-Library.Char_ord" "HOL-Library.List_Lexorder"
begin

section \<open>The store: the two SQLite tables of the server\<close>

text \<open>
  The server keeps its data in two tables, \<^verbatim>\<open>users\<close> and \<^verbatim>\<open>hazards\<close>, created by the
  \<^verbatim>\<open>db.exec\<close> call at start-up. No column is declared \<^verbatim>\<open>NOT NULL\<close>, so a \<^verbatim>\<open>TEXT\<close> column
  is a \<open>string option\<close> here, \<open>None\<close> being SQL \<^verbatim>\<open>NULL\<close>. The two integer keys are always
  assigned by the engine (\<^verbatim>\<open>AUTOINCREMENT\<close>), and \<^verbatim>\<open>userId\<close> is always bound to the id of
  the session, so they are plain integers. \<^verbatim>\<open>createdAt\<close> is the text SQLite's
  \<^verbatim>\<open>CURRENT_TIMESTAMP\<close> produces; SQLite compares such text byte by byte, which is the
  lexicographic order on \<open>string\<close>.

  Field names follow the columns; \<^verbatim>\<open>id\<close> and \<^verbatim>\<open>type\<close> carry a suffix where the name is
  taken in HOL or shared by both tables.
\<close>

type_synonym sql_text = "string option"

record user =
  id_u :: int
  username :: sql_text
  password :: sql_text
  role :: sql_text

record hazard =
  id_h :: int
  userId :: int
  type_h :: sql_text
  location :: sql_text
  riskLevel :: sql_text
  description :: sql_text
  imageUrl :: sql_text
  status :: sql_text
  remarks :: sql_text
  createdAt :: string

text \<open>
  \<open>foreign_keys\<close> is the connection's \<^verbatim>\<open>PRAGMA foreign_keys\<close>: when it is on, the clause
  \<^verbatim>\<open>FOREIGN KEY(userId) REFERENCES users(id)\<close> of the schema is enforced on every insert.
  The server never sets it, so it keeps the value the SQLite build gives it.
\<close>

record database =
  users :: "user list"
  hazards :: "hazard list"
  foreign_keys :: bool

text \<open>
  \<^verbatim>\<open>INTEGER PRIMARY KEY AUTOINCREMENT\<close>: the new key is one more than the largest key ever
  used, and 1 in an empty table. No row is ever deleted by the server, so the largest key
  ever used is the largest key present.
\<close>

definition lastInsertRowid :: "int list \<Rightarrow> int" where
  "lastInsertRowid ids = foldr max ids 0 + 1"

definition empty_db :: "bool \<Rightarrow> database" where
  "empty_db fk = \<lparr>users = [], hazards = [], foreign_keys = fk\<rparr>"

text \<open>
  \<^verbatim>\<open>INSERT INTO users (username, password, role) VALUES (?, ?, ?)\<close>. The column \<^verbatim>\<open>username\<close>
  is \<^verbatim>\<open>UNIQUE\<close>: the insert fails (\<open>None\<close>, the thrown \<^verbatim>\<open>SqliteError\<close>) when another row has
  the same non-null username; SQL \<^verbatim>\<open>NULL\<close>s never collide.
\<close>

definition insert_user :: "database \<Rightarrow> sql_text \<Rightarrow> sql_text \<Rightarrow> sql_text \<Rightarrow> database option" where
  "insert_user d name pw r =
     (if name \<noteq> None \<and> name \<in> set (map username (users d)) then None
      else Some (d\<lparr>users := users d @
             [\<lparr>id_u = lastInsertRowid (map id_u (users d)), username = name,
               password = pw, role = r\<rparr>]\<rparr>))"

text \<open>
  The seeding at start-up: the account \<^verbatim>\<open>admin\<close> with role \<^verbatim>\<open>admin\<close> is inserted unless a
  row with that username exists. \<open>hashedPassword\<close> stands for the value of
  \<^verbatim>\<open>bcrypt.hashSync("admin123", 10)\<close>.
\<close>

definition seed_admin :: "string \<Rightarrow> database \<Rightarrow> database" where
  "seed_admin hashedPassword d =
     (case find (\<lambda>u. username u = Some ''admin'') (users d) of
        Some adminExists \<Rightarrow> d
      | None \<Rightarrow>
          (case insert_user d (Some ''admin'') (Some hashedPassword) (Some ''admin'') of
             Some d' \<Rightarrow> d'
           | None \<Rightarrow> d))"

text \<open>
  \<^verbatim>\<open>INSERT INTO hazards (userId, type, location, riskLevel, description, imageUrl)\<close>:
  \<^verbatim>\<open>status\<close> takes its default \<^verbatim>\<open>'open'\<close>, \<^verbatim>\<open>remarks\<close> has no default and is \<^verbatim>\<open>NULL\<close>,
  \<^verbatim>\<open>createdAt\<close> takes \<^verbatim>\<open>CURRENT_TIMESTAMP\<close> (\<open>now\<close>). The result is the new row id and the
  new table, or \<open>None\<close> when the foreign key is enforced and no user has the id \<open>uid\<close>.
\<close>

definition insert_hazard ::
  "database \<Rightarrow> string \<Rightarrow> int \<Rightarrow> sql_text \<Rightarrow> sql_text \<Rightarrow> sql_text \<Rightarrow> sql_text \<Rightarrow> sql_text
     \<Rightarrow> (int \<times> database) option" where
  "insert_hazard d now uid ty loc risk descr img =
     (if foreign_keys d \<and> uid \<notin> set (map id_u (users d)) then None
      else
        (let rowid = lastInsertRowid (map id_h (hazards d))
         in Some (rowid,
              d\<lparr>hazards := hazards d @
                [\<lparr>id_h = rowid, userId = uid, type_h = ty, location = loc, riskLevel = risk,
                  description = descr, imageUrl = img, status = Some ''open'',
                  remarks = None, createdAt = now\<rparr>]\<rparr>)))"

text \<open>
  \<^verbatim>\<open>SELECT * FROM hazards WHERE id = ?\<close> with \<^verbatim>\<open>.get\<close>: the first matching row, or
  \<^verbatim>\<open>undefined\<close>. The id bound by the \<^verbatim>\<open>PATCH\<close> route is the text of the path segment, which
  SQLite compares with the integer column by reading it as a number: the model carries
  the integer read, and \<open>None\<close> for a segment that is not one, which matches no row.
\<close>

definition select_hazard :: "database \<Rightarrow> int option \<Rightarrow> hazard option" where
  "select_hazard d i = find (\<lambda>h. Some (id_h h) = i) (hazards d)"

text \<open>\<^verbatim>\<open>UPDATE hazards SET status = ?, remarks = ? WHERE id = ?\<close>.\<close>

definition update_hazard :: "database \<Rightarrow> sql_text \<Rightarrow> sql_text \<Rightarrow> int option \<Rightarrow> database" where
  "update_hazard d st rm i =
     d\<lparr>hazards := map (\<lambda>h. if Some (id_h h) = i then h\<lparr>status := st, remarks := rm\<rparr> else h)
                     (hazards d)\<rparr>"

text \<open>
  \<^verbatim>\<open>ORDER BY createdAt DESC\<close>. SQL leaves the order of rows with equal keys open; SQLite
  returns them in the order of the scan, which is the order of the row ids, the order of
  the list. The model does the same: the library's insertion sort is stable, so sorting
  the reversed list and reversing the result keeps rows of equal key in list order.
\<close>

definition order_by_desc :: "('a \<Rightarrow> string) \<Rightarrow> 'a list \<Rightarrow> 'a list" where
  "order_by_desc key rows = rev (sort_key key (rev rows))"

text \<open>
  \<^verbatim>\<open>SELECT h.*, u.username as reporter FROM hazards h JOIN users u ON h.userId = u.id
  ORDER BY h.createdAt DESC\<close>: an inner join, one output row for each pair of a hazard and a
  user with that id.
\<close>

definition select_hazards_reporter :: "database \<Rightarrow> (hazard \<times> sql_text) list" where
  "select_hazards_reporter d =
     order_by_desc (\<lambda>row. createdAt (fst row))
       (concat (map (\<lambda>h. map (\<lambda>u. (h, username u))
                            (filter (\<lambda>u. userId h = id_u u) (users d)))
                    (hazards d)))"

text \<open>\<^verbatim>\<open>SELECT * FROM hazards WHERE userId = ? ORDER BY createdAt DESC\<close>.\<close>

definition select_hazards_of :: "database \<Rightarrow> int \<Rightarrow> hazard list" where
  "select_hazards_of d uid =
     order_by_desc createdAt (filter (\<lambda>h. userId h = uid) (hazards d))"

subsection \<open>Binding request values to statement parameters\<close>

text \<open>
  A field of a parsed JSON body is a string, a number, a boolean, \<^verbatim>\<open>null\<close>, an array or an
  object, or it is absent (\<^verbatim>\<open>undefined\<close>). The handlers hand such values to \<^verbatim>\<open>.run\<close> as
  parameters of columns of type \<^verbatim>\<open>TEXT\<close>. The driver binds a string as text, a number as a
  floating-point value, which the column stores as text (7 becomes \<^verbatim>\<open>'7.0'\<close>), and \<^verbatim>\<open>null\<close>
  and \<^verbatim>\<open>undefined\<close> as \<^verbatim>\<open>NULL\<close>; on a boolean, an array or an object it throws a
  \<^verbatim>\<open>TypeError\<close> before the statement runs. \<open>JNumber\<close> carries the text the column stores for
  the number; what is inside an array or an object plays no part.
\<close>

datatype json_value =
    JString string
  | JNumber string
  | JBoolean bool
  | JNull
  | JArray
  | JObject

fun bindable :: "json_value option \<Rightarrow> bool" where
  "bindable (Some (JBoolean b)) = False"
| "bindable (Some JArray) = False"
| "bindable (Some JObject) = False"
| "bindable v = True"

text \<open>What a \<^verbatim>\<open>TEXT\<close> column holds once a bindable value is stored in it.\<close>

fun bound :: "json_value option \<Rightarrow> sql_text" where
  "bound (Some (JString t)) = Some t"
| "bound (Some (JNumber t)) = Some t"
| "bound v = None"

section \<open>The server: sessions, connections, middleware and routes\<close>

text \<open>
  \<open>req_user\<close> is the payload of a session token, as \<^verbatim>\<open>/api/auth/login\<close> signs it
  (\<^verbatim>\<open>{id, username, role}\<close>) and as \<^verbatim>\<open>authenticate\<close> stores it in \<^verbatim>\<open>req.user\<close>.
\<close>

record req_user =
  user_id :: int
  user_name :: sql_text
  user_role :: string

text \<open>
  What a handler reads of a request: the cookie \<^verbatim>\<open>token\<close>, the JSON body as a map from
  field names to JSON values (\<open>None\<close> for a field that is absent), and the path parameter
  \<^verbatim>\<open>:id\<close> as the integer SQLite reads from it.
\<close>

record request =
  cookies_token :: "string option"
  body :: "string \<rightharpoonup> json_value"
  params_id :: "int option"

text \<open>
  Response bodies. \<open>NoBody\<close> is what \<^verbatim>\<open>res.json(undefined)\<close> sends: status 200 and nothing
  else. \<open>ErrorPage\<close> is the page of the framework's default error handler, which answers
  500 when a handler throws.
\<close>

datatype json =
    JError string
  | JSuccess
  | JHazard hazard
  | JHazards "hazard list"
  | JHazardsReporter "(hazard \<times> sql_text) list"
  | NoBody
  | ErrorPage

datatype response = Response (status_code: nat) (content: json)

datatype readyState = CONNECTING | OPEN | CLOSING | CLOSED

record client =
  conn :: nat
  readyState :: readyState

text \<open>
  A push message \<^verbatim>\<open>{type, payload}\<close>. \<^verbatim>\<open>JSON.stringify\<close> leaves out a payload that is
  \<^verbatim>\<open>undefined\<close>: that is \<open>None\<close>.
\<close>

datatype ws_message = WSMessage (msg_type: string) (payload: "hazard option")

record server =
  db :: database
  clients :: "client list"

text \<open>
  What handling one request does: the response, the messages handed to connections (in
  order, each with the connection it went to), and the server afterwards.
\<close>

record outcome =
  response :: response
  sent :: "(nat \<times> ws_message) list"
  state :: server

subsection \<open>Connections and broadcast\<close>

text \<open>\<^verbatim>\<open>wss.on("connection", ...)\<close> adds the socket to the set; its \<^verbatim>\<open>close\<close> event removes it.\<close>

definition ws_connection :: "nat \<Rightarrow> server \<Rightarrow> server" where
  "ws_connection c s =
     (if c \<in> set (map conn (clients s)) then s
      else s\<lparr>clients := clients s @ [\<lparr>conn = c, readyState = OPEN\<rparr>]\<rparr>)"

definition ws_close :: "nat \<Rightarrow> server \<Rightarrow> server" where
  "ws_close c s = s\<lparr>clients := filter (\<lambda>x. conn x \<noteq> c) (clients s)\<rparr>"

text \<open>The transport of a registered connection changes state on its own.\<close>

definition ws_readyState :: "nat \<Rightarrow> readyState \<Rightarrow> server \<Rightarrow> server" where
  "ws_readyState c r s =
     s\<lparr>clients := map (\<lambda>x. if conn x = c then x\<lparr>readyState := r\<rparr> else x) (clients s)\<rparr>"

definition broadcast :: "client list \<Rightarrow> ws_message \<Rightarrow> (nat \<times> ws_message) list" where
  "broadcast cs message =
     map (\<lambda>client. (conn client, message)) (filter (\<lambda>client. readyState client = OPEN) cs)"

subsection \<open>Middleware\<close>

text \<open>
  \<open>verify\<close> stands for \<^verbatim>\<open>jwt.verify(token, JWT_SECRET)\<close>: the payload of a token signed with
  the server's secret, \<open>None\<close> where the library throws. An empty token is falsy in
  JavaScript and is treated as a missing one.
\<close>

definition authenticate :: "(string \<Rightarrow> req_user option) \<Rightarrow> request \<Rightarrow> response + req_user" where
  "authenticate verify req =
     (case cookies_token req of
        None \<Rightarrow> Inl (Response 401 (JError ''Unauthorized''))
      | Some token \<Rightarrow>
          if token = [] then Inl (Response 401 (JError ''Unauthorized''))
          else (case verify token of
                  None \<Rightarrow> Inl (Response 401 (JError ''Invalid token''))
                | Some u \<Rightarrow> Inr u))"

definition isAdmin :: "req_user \<Rightarrow> response + unit" where
  "isAdmin u =
     (if user_role u \<noteq> ''admin'' then Inl (Response 403 (JError ''Forbidden'')) else Inr ())"

subsection \<open>Routes\<close>

text \<open>
  \<^verbatim>\<open>POST /api/auth/register\<close>. \<open>hashedPassword\<close> stands for the value of
  \<^verbatim>\<open>bcrypt.hashSync(password, 10)\<close>, which throws when the password is not a string; every
  exception of the handler's body, that of the driver on a username it cannot bind
  included, is answered with 400.
\<close>

definition post_auth_register :: "string \<Rightarrow> request \<Rightarrow> server \<Rightarrow> outcome" where
  "post_auth_register hashedPassword req s =
     (case body req ''password'' of
        Some (JString pw) \<Rightarrow>
          (if \<not> bindable (body req ''username'')
           then \<lparr>response = Response 400 (JError ''Username already exists''), sent = [],
                 state = s\<rparr>
           else
             (case insert_user (db s) (bound (body req ''username'')) (Some hashedPassword)
                     (Some ''user'') of
                None \<Rightarrow>
                  \<lparr>response = Response 400 (JError ''Username already exists''), sent = [],
                   state = s\<rparr>
              | Some d' \<Rightarrow>
                  \<lparr>response = Response 200 JSuccess, sent = [], state = s\<lparr>db := d'\<rparr>\<rparr>))
      | _ \<Rightarrow> \<lparr>response = Response 400 (JError ''Username already exists''), sent = [], state = s\<rparr>)"

text \<open>\<^verbatim>\<open>res.json\<close> of the result of a \<^verbatim>\<open>.get\<close>.\<close>

definition json_hazard :: "hazard option \<Rightarrow> json" where
  "json_hazard row = (case row of None \<Rightarrow> NoBody | Some h \<Rightarrow> JHazard h)"

text \<open>
  \<^verbatim>\<open>POST /api/hazards\<close>, behind \<^verbatim>\<open>authenticate\<close>; \<open>now\<close> is the clock of the insert. The
  handler catches nothing: when \<^verbatim>\<open>.run\<close> throws, on a value it cannot bind or on the foreign
  key, the framework answers 500 and nothing has been written or sent.
\<close>

definition post_hazards :: "(string \<Rightarrow> req_user option) \<Rightarrow> string \<Rightarrow> request \<Rightarrow> server \<Rightarrow> outcome" where
  "post_hazards verify now req s =
     (case authenticate verify req of
        Inl r \<Rightarrow> \<lparr>response = r, sent = [], state = s\<rparr>
      | Inr u \<Rightarrow>
          (if \<not> list_all bindable
                  [body req ''type'', body req ''location'', body req ''riskLevel'',
                   body req ''description'', body req ''imageUrl'']
           then \<lparr>response = Response 500 ErrorPage, sent = [], state = s\<rparr>
           else
             (case insert_hazard (db s) now (user_id u) (bound (body req ''type''))
                     (bound (body req ''location'')) (bound (body req ''riskLevel''))
                     (bound (body req ''description'')) (bound (body req ''imageUrl'')) of
                None \<Rightarrow> \<lparr>response = Response 500 ErrorPage, sent = [], state = s\<rparr>
              | Some (rowid, d') \<Rightarrow>
                  (let newHazard = select_hazard d' (Some rowid)
                   in \<lparr>response = Response 200 (json_hazard newHazard),
                       sent = broadcast (clients s) (WSMessage ''NEW_HAZARD'' newHazard),
                       state = s\<lparr>db := d'\<rparr>\<rparr>))))"

text \<open>\<^verbatim>\<open>GET /api/hazards\<close>, behind \<^verbatim>\<open>authenticate\<close>.\<close>

definition get_hazards :: "(string \<Rightarrow> req_user option) \<Rightarrow> request \<Rightarrow> server \<Rightarrow> outcome" where
  "get_hazards verify req s =
     (case authenticate verify req of
        Inl r \<Rightarrow> \<lparr>response = r, sent = [], state = s\<rparr>
      | Inr u \<Rightarrow>
          (if user_role u = ''admin''
           then \<lparr>response = Response 200 (JHazardsReporter (select_hazards_reporter (db s))),
                 sent = [], state = s\<rparr>
           else \<lparr>response = Response 200 (JHazards (select_hazards_of (db s) (user_id u))),
                 sent = [], state = s\<rparr>))"

text \<open>
  \<^verbatim>\<open>PATCH /api/hazards/:id\<close>, behind \<^verbatim>\<open>authenticate\<close> and \<^verbatim>\<open>isAdmin\<close>. Here too a status
  or remarks that \<^verbatim>\<open>.run\<close> cannot bind ends in 500 with nothing written or sent.
\<close>

definition patch_hazards_id :: "(string \<Rightarrow> req_user option) \<Rightarrow> request \<Rightarrow> server \<Rightarrow> outcome" where
  "patch_hazards_id verify req s =
     (case authenticate verify req of
        Inl r \<Rightarrow> \<lparr>response = r, sent = [], state = s\<rparr>
      | Inr u \<Rightarrow>
          (case isAdmin u of
             Inl r \<Rightarrow> \<lparr>response = r, sent = [], state = s\<rparr>
           | Inr _ \<Rightarrow>
               (if \<not> list_all bindable [body req ''status'', body req ''remarks'']
                then \<lparr>response = Response 500 ErrorPage, sent = [], state = s\<rparr>
                else
                  (let d' = update_hazard (db s) (bound (body req ''status''))
                              (bound (body req ''remarks'')) (params_id req);
                       updated = select_hazard d' (params_id req)
                   in \<lparr>response = Response 200 (json_hazard updated),
                       sent = broadcast (clients s) (WSMessage ''STATUS_UPDATE'' updated),
                       state = s\<lparr>db := d'\<rparr>\<rparr>))))"

subsection \<open>Runs of the server\<close>

text \<open>
  Everything that can change the server's state: a connection opening, changing its
  transport state or closing, and the requests that write. Login, logout and
  \<^verbatim>\<open>/api/auth/me\<close> read at most the \<^verbatim>\<open>users\<close> table and change nothing, so they are no events.
  A request carries what the environment supplies while it is handled (the password hash,
  the clock).
\<close>

datatype event =
    WsConnection nat
  | WsReadyState nat readyState
  | WsClose nat
  | PostAuthRegister string request
  | PostHazards string request
  | GetHazards request
  | PatchHazardsId request

fun handle :: "(string \<Rightarrow> req_user option) \<Rightarrow> event \<Rightarrow> server \<Rightarrow> server" where
  "handle verify (WsConnection c) s = ws_connection c s"
| "handle verify (WsReadyState c r) s = ws_readyState c r s"
| "handle verify (WsClose c) s = ws_close c s"
| "handle verify (PostAuthRegister hashedPassword req) s =
     state (post_auth_register hashedPassword req s)"
| "handle verify (PostHazards now req) s = state (post_hazards verify now req s)"
| "handle verify (GetHazards req) s = state (get_hazards verify req s)"
| "handle verify (PatchHazardsId req) s = state (patch_hazards_id verify req s)"

fun run :: "(string \<Rightarrow> req_user option) \<Rightarrow> event list \<Rightarrow> server \<Rightarrow> server" where
  "run verify [] s = s"
| "run verify (e # es) s = run verify es (handle verify e s)"

text \<open>
  The server at start-up on a fresh database file: the tables are empty but for the seeded
  administrator, and no connection is registered.
\<close>

definition startServer :: "bool \<Rightarrow> string \<Rightarrow> server" where
  "startServer fk hashedPassword =
     \<lparr>db = seed_admin hashedPassword (empty_db fk), clients = []\<rparr>"

section \<open>Vocabulary of the properties\<close>

text \<open>
  The three lifecycle states and the three risk levels, as \<^verbatim>\<open>types.ts\<close> spells them
  (\<^verbatim>\<open>HazardStatus\<close>, \<^verbatim>\<open>Hazard.riskLevel\<close>).
\<close>

definition hazard_statuses :: "string list" where
  "hazard_statuses = [''open'', ''in progress'', ''closed'']"

definition risk_levels :: "string list" where
  "risk_levels = [''low'', ''medium'', ''high'']"

text \<open>Every stored report has one of the three lifecycle states as its status.\<close>

definition status_ok :: "database \<Rightarrow> bool" where
  "status_ok d = list_all (\<lambda>h. status h \<in> set (map Some hazard_statuses)) (hazards d)"

text \<open>
  A valid submission in the words of the specification: type, location and description
  are text and not empty, and the risk level is low, medium or high.
\<close>

definition non_empty :: "json_value option \<Rightarrow> bool" where
  "non_empty v = (case v of Some (JString t) \<Rightarrow> t \<noteq> [] | _ \<Rightarrow> False)"

definition valid_submission :: "(string \<rightharpoonup> json_value) \<Rightarrow> bool" where
  "valid_submission b =
     (non_empty (b ''type'') \<and> non_empty (b ''location'') \<and> non_empty (b ''description'')
      \<and> b ''riskLevel'' \<in> set (map (\<lambda>l. Some (JString l)) risk_levels))"

text \<open>
  The values a report submission, and a status update, hands to \<^verbatim>\<open>.run\<close> can all be bound:
  none of them is a boolean, an array or an object.
\<close>

definition report_binds :: "(string \<rightharpoonup> json_value) \<Rightarrow> bool" where
  "report_binds b =
     (bindable (b ''type'') \<and> bindable (b ''location'') \<and> bindable (b ''riskLevel'')
      \<and> bindable (b ''description'') \<and> bindable (b ''imageUrl''))"

definition update_binds :: "(string \<rightharpoonup> json_value) \<Rightarrow> bool" where
  "update_binds b = (bindable (b ''status'') \<and> bindable (b ''remarks''))"

text \<open>
  The owner-validity invariant: every report references an account of the \<^verbatim>\<open>users\<close>
  table. \<open>users_pk\<close> is the primary key of that table: no two accounts share an id.
\<close>

definition owner_valid :: "database \<Rightarrow> bool" where
  "owner_valid d = list_all (\<lambda>h. userId h \<in> set (map id_u (users d))) (hazards d)"

definition users_pk :: "database \<Rightarrow> bool" where
  "users_pk d = distinct (map id_u (users d))"

text \<open>
  The store as the engine keeps it when it enforces the foreign key: keys are unique and
  every owner is an account.
\<close>

definition store_wf :: "database \<Rightarrow> bool" where
  "store_wf d = (foreign_keys d \<and> users_pk d \<and> owner_valid d)"

text \<open>
  The session's account is one the store accepts as an owner: it is in the \<^verbatim>\<open>users\<close>
  table, or the foreign key is not enforced.
\<close>

definition owner_accepted :: "database \<Rightarrow> int \<Rightarrow> bool" where
  "owner_accepted d uid = (foreign_keys d \<longrightarrow> uid \<in> set (map id_u (users d)))"

text \<open>
  A status update that passes \<^verbatim>\<open>authenticate\<close> and \<^verbatim>\<open>isAdmin\<close> asks for one of the three
  lifecycle states; any other event passes.
\<close>

fun asks_lifecycle_state :: "(string \<Rightarrow> req_user option) \<Rightarrow> event \<Rightarrow> bool" where
  "asks_lifecycle_state verify (PatchHazardsId req) =
     (case authenticate verify req of
        Inl r \<Rightarrow> True
      | Inr u \<Rightarrow>
          user_role u = ''admin'' \<longrightarrow>
            body req ''status'' \<in> set (map (\<lambda>st. Some (JString st)) hazard_statuses))"
| "asks_lifecycle_state verify e = True"

section \<open>The scenario of the specification, as sample inputs\<close>

text \<open>
  The seeded administrator has id 1; alice registers next and has id 2. \<open>sample_verify\<close>
  accepts the two tokens a login of these accounts would be given, and no other.
\<close>

definition sample_verify :: "string \<Rightarrow> req_user option" where
  "sample_verify token =
     (if token = ''admin-token''
      then Some \<lparr>user_id = 1, user_name = Some ''admin'', user_role = ''admin''\<rparr>
      else if token = ''alice-token''
      then Some \<lparr>user_id = 2, user_name = Some ''alice'', user_role = ''user''\<rparr>
      else None)"

definition register_alice :: request where
  "register_alice =
     \<lparr>cookies_token = None,
      body = [''username'' \<mapsto> JString ''alice'', ''password'' \<mapsto> JString ''pw1''],
      params_id = None\<rparr>"

definition report_spill :: request where
  "report_spill =
     \<lparr>cookies_token = Some ''alice-token'',
      body = [''type'' \<mapsto> JString ''Spill'', ''location'' \<mapsto> JString ''Dock 3'',
              ''riskLevel'' \<mapsto> JString ''medium'', ''description'' \<mapsto> JString ''Wet floor''],
      params_id = None\<rparr>"

definition spill :: hazard where
  "spill =
     \<lparr>id_h = 1, userId = 2, type_h = Some ''Spill'', location = Some ''Dock 3'',
      riskLevel = Some ''medium'', description = Some ''Wet floor'', imageUrl = None,
      status = Some ''open'', remarks = None, createdAt = ''2024-05-01 09:00:00''\<rparr>"

definition dispatch_crew :: request where
  "dispatch_crew =
     \<lparr>cookies_token = Some ''admin-token'',
      body = [''status'' \<mapsto> JString ''in progress'',
              ''remarks'' \<mapsto> JString ''Cleanup crew dispatched''],
      params_id = Some 1\<rparr>"

text \<open>The two accounts asking for the listing.\<close>

definition alice_lists :: request where
  "alice_lists = \<lparr>cookies_token = Some ''alice-token'', body = Map.empty, params_id = None\<rparr>"

definition admin_lists :: request where
  "admin_lists = \<lparr>cookies_token = Some ''admin-token'', body = Map.empty, params_id = None\<rparr>"

text \<open>The server once alice has registered, and once she has reported the spill.\<close>

definition server_alice :: server where
  "server_alice =
     run sample_verify [PostAuthRegister ''hash-of-pw1'' register_alice]
       (startServer True ''hash-of-admin123'')"

definition server_spill :: server where
  "server_spill =
     run sample_verify [PostHazards ''2024-05-01 09:00:00'' report_spill, WsConnection 7,
                        WsConnection 8, WsReadyState 8 CLOSING] server_alice"

text \<open>
  Later the administrator reports a loose cable, and the store holds two reports.
\<close>

definition report_cable :: request where
  "report_cable =
     \<lparr>cookies_token = Some ''admin-token'',
      body = [''type'' \<mapsto> JString ''Loose cable'', ''location'' \<mapsto> JString ''Office 2'',
              ''riskLevel'' \<mapsto> JString ''high'',
              ''description'' \<mapsto> JString ''Cable across the aisle'',
              ''userId'' \<mapsto> JString ''2''],
      params_id = None\<rparr>"

definition cable :: hazard where
  "cable =
     \<lparr>id_h = 2, userId = 1, type_h = Some ''Loose cable'', location = Some ''Office 2'',
      riskLevel = Some ''high'', description = Some ''Cable across the aisle'', imageUrl = None,
      status = Some ''open'', remarks = None, createdAt = ''2024-05-02 08:30:00''\<rparr>"

definition server_cable :: server where
  "server_cable =
     run sample_verify [PostHazards ''2024-05-02 08:30:00'' report_cable] server_spill"

text \<open>
  Requests a well-behaved client never sends: a report with an empty type, no location,
  no description and a risk level outside the three; the same report with the number 7,
  and with \<^verbatim>\<open>true\<close>, as its risk level; and a status update to a state outside the three.
\<close>

definition report_blank :: request where
  "report_blank =
     \<lparr>cookies_token = Some ''alice-token'',
      body = [''type'' \<mapsto> JString [], ''riskLevel'' \<mapsto> JString ''extreme''],
      params_id = None\<rparr>"

definition report_seven :: request where
  "report_seven = report_blank\<lparr>body := (body report_blank)(''riskLevel'' \<mapsto> JNumber ''7.0'')\<rparr>"

definition report_true :: request where
  "report_true = report_blank\<lparr>body := (body report_blank)(''riskLevel'' \<mapsto> JBoolean True)\<rparr>"

definition mark_resolved :: request where
  "mark_resolved =
     \<lparr>cookies_token = Some ''admin-token'',
      body = [''status'' \<mapsto> JString ''resolved''],
      params_id = Some 1\<rparr>"

section \<open>Facts about the store\<close>

lemma lastInsertRowid_fresh: "i \<in> set ids \<Longrightarrow> i < lastInsertRowid ids"
  unfolding lastInsertRowid_def by (induction ids) auto

lemma find_snoc_fresh: "\<forall>x\<in>set xs. \<not> P x \<Longrightarrow> P y \<Longrightarrow> find P (xs @ [y]) = Some y"
  by (induction xs) auto

lemma find_updated_row:
  assumes "i \<in> set (map id_h hs)"
  shows "\<exists>r. find (\<lambda>h. Some (id_h h) = Some i)
               (map (\<lambda>h. if Some (id_h h) = Some i then h\<lparr>status := st, remarks := rm\<rparr> else h) hs)
             = Some r
           \<and> status r = st \<and> remarks r = rm \<and> id_h r = i
           \<and> r \<in> set (map (\<lambda>h. if Some (id_h h) = Some i then h\<lparr>status := st, remarks := rm\<rparr> else h) hs)"
  using assms by (induction hs) auto

lemma update_hazard_select:
  assumes "i \<in> set (map id_h (hazards d))"
  shows "\<exists>r. select_hazard (update_hazard d st rm (Some i)) (Some i) = Some r
           \<and> status r = st \<and> remarks r = rm \<and> id_h r = i
           \<and> r \<in> set (hazards (update_hazard d st rm (Some i)))"
  using find_updated_row [OF assms, where st = st and rm = rm]
  by (simp add: select_hazard_def update_hazard_def)

lemma update_hazard_absent:
  assumes "select_hazard d i = None"
  shows "update_hazard d st rm i = d" and "select_hazard (update_hazard d st rm i) i = None"
proof -
  have no: "\<forall>h\<in>set (hazards d). Some (id_h h) \<noteq> i"
    using assms by (auto simp: select_hazard_def find_None_iff)
  then have "map (\<lambda>h. if Some (id_h h) = i then h\<lparr>status := st, remarks := rm\<rparr> else h) (hazards d)
               = hazards d"
    by (simp add: map_idI)
  then show "update_hazard d st rm i = d" by (simp add: update_hazard_def)
  with assms show "select_hazard (update_hazard d st rm i) i = None" by simp
qed

lemma select_hazard_Some: "select_hazard d i = Some r \<Longrightarrow> i = Some (id_h r)"
  by (auto simp: select_hazard_def find_Some_iff)

lemma set_order_by_desc: "set (order_by_desc key rows) = set rows"
  by (simp add: order_by_desc_def)

lemma mset_order_by_desc: "mset (order_by_desc key rows) = mset rows"
  by (simp add: order_by_desc_def)

lemma sorted_order_by_desc:
  "sorted_wrt (\<lambda>a b. b \<le> a) (map key (order_by_desc key rows))"
  by (simp add: order_by_desc_def rev_map [symmetric] sorted_wrt_rev)

text \<open>Rows of equal key come out in the order they had.\<close>

lemma order_by_desc_stable:
  "filter (\<lambda>row. key row = k) (order_by_desc key rows) = filter (\<lambda>row. key row = k) rows"
proof -
  have "filter (\<lambda>row. key row = k) (order_by_desc key rows) =
          rev (filter (\<lambda>row. key row = k) (sort_key key (rev rows)))"
    by (simp add: order_by_desc_def rev_filter)
  also have "\<dots> = rev (filter (\<lambda>row. key row = k) (rev rows))"
    by (simp only: sort_key_stable)
  also have "\<dots> = filter (\<lambda>row. key row = k) rows"
    by (simp add: rev_filter)
  finally show ?thesis .
qed

lemma filter_unique_key:
  assumes "distinct (map f xs)" and "y \<in> set (map f xs)"
  shows "\<exists>x. filter (\<lambda>x. y = f x) xs = [x] \<and> x \<in> set xs \<and> f x = y"
  using assms
proof (induction xs)
  case Nil
  then show ?case by simp
next
  case (Cons a xs)
  show ?case
  proof (cases "y = f a")
    case True
    with Cons.prems have "\<forall>x\<in>set xs. y \<noteq> f x" by auto
    then have "filter (\<lambda>x. y = f x) xs = []" by (simp add: filter_empty_conv)
    with True show ?thesis by simp
  next
    case False
    with Cons show ?thesis by auto
  qed
qed

lemma join_one_row_each:
  assumes "distinct (map id_u us)" and "\<forall>h\<in>set hs. userId h \<in> set (map id_u us)"
  shows "map fst (concat (map (\<lambda>h. map (\<lambda>u. (h, username u))
                                    (filter (\<lambda>u. userId h = id_u u) us)) hs)) = hs"
  using assms(2)
proof (induction hs)
  case Nil
  then show ?case by simp
next
  case (Cons h hs)
  then obtain u where "filter (\<lambda>u. userId h = id_u u) us = [u]"
    using filter_unique_key [OF assms(1), of "userId h"] by auto
  with Cons show ?case by simp
qed

lemma join_reporter:
  assumes "row \<in> set (concat (map (\<lambda>h. map (\<lambda>u. (h, username u))
                                    (filter (\<lambda>u. userId h = id_u u) us)) hs))"
  shows "\<exists>u\<in>set us. id_u u = userId (fst row) \<and> snd row = username u"
  using assms by auto

section \<open>The sample servers, evaluated\<close>

lemma server_alice_eq:
  "server_alice =
     \<lparr>db = \<lparr>users =
              [\<lparr>id_u = 1, username = Some ''admin'', password = Some ''hash-of-admin123'',
                role = Some ''admin''\<rparr>,
               \<lparr>id_u = 2, username = Some ''alice'', password = Some ''hash-of-pw1'',
                role = Some ''user''\<rparr>],
            hazards = [], foreign_keys = True\<rparr>,
      clients = []\<rparr>"
  by (simp add: server_alice_def startServer_def seed_admin_def empty_db_def insert_user_def
      lastInsertRowid_def post_auth_register_def register_alice_def)

lemma server_spill_eq:
  "server_spill =
     \<lparr>db = \<lparr>users =
              [\<lparr>id_u = 1, username = Some ''admin'', password = Some ''hash-of-admin123'',
                role = Some ''admin''\<rparr>,
               \<lparr>id_u = 2, username = Some ''alice'', password = Some ''hash-of-pw1'',
                role = Some ''user''\<rparr>],
            hazards = [spill], foreign_keys = True\<rparr>,
      clients = [\<lparr>conn = 7, readyState = OPEN\<rparr>, \<lparr>conn = 8, readyState = CLOSING\<rparr>]\<rparr>"
  by (simp add: server_spill_def server_alice_eq post_hazards_def authenticate_def
      sample_verify_def report_spill_def insert_hazard_def lastInsertRowid_def select_hazard_def
      json_hazard_def broadcast_def spill_def ws_connection_def ws_readyState_def)

lemma authenticate_alice:
  "authenticate sample_verify (req\<lparr>cookies_token := Some ''alice-token''\<rparr>) =
     Inr \<lparr>user_id = 2, user_name = Some ''alice'', user_role = ''user''\<rparr>"
  by (simp add: authenticate_def sample_verify_def)

lemma server_cable_eq:
  "server_cable = server_spill\<lparr>db := (db server_spill)\<lparr>hazards := [spill, cable]\<rparr>\<rparr>"
  by (simp add: server_cable_def server_spill_eq post_hazards_def authenticate_def
      sample_verify_def report_cable_def insert_hazard_def lastInsertRowid_def select_hazard_def
      json_hazard_def broadcast_def spill_def cable_def)

text \<open>The administrator's listing of the two reports: the newer one first.\<close>

lemma select_hazards_reporter_cable:
  "select_hazards_reporter (db server_cable) =
     [(cable, Some ''admin''), (spill, Some ''alice'')]"
  by (simp add: server_cable_eq server_spill_eq select_hazards_reporter_def order_by_desc_def
      spill_def cable_def less_eq_char_def)

text \<open>
  Were a third report created in the same second as the spill, the listing would show
  the two in the order of their ids, after the newer cable report.
\<close>

lemma order_by_desc_ties:
  "map id_h (order_by_desc createdAt
       [spill, cable, cable\<lparr>id_h := 3, createdAt := ''2024-05-01 09:00:00''\<rparr>]) = [2, 1, 3]"
  by (simp add: order_by_desc_def spill_def cable_def less_eq_char_def)

section \<open>What the routes do\<close>

lemma authenticate_Inl: "authenticate verify req = Inl r \<Longrightarrow> status_code r = 401"
  by (auto simp: authenticate_def split: option.splits if_splits)

lemma post_hazards_unauthenticated:
  assumes "authenticate verify req = Inl r"
  shows "post_hazards verify now req s = \<lparr>response = r, sent = [], state = s\<rparr>"
  using assms by (simp add: post_hazards_def)

lemma valid_submission_binds:
  "valid_submission b \<Longrightarrow> bindable (b ''imageUrl'') \<Longrightarrow> report_binds b"
  by (auto simp: valid_submission_def non_empty_def report_binds_def risk_levels_def
      split: option.splits json_value.splits)

lemma bound_lifecycle_state:
  "v \<in> set (map (\<lambda>st. Some (JString st)) hazard_statuses)
     \<Longrightarrow> bindable v \<and> bound v \<in> set (map Some hazard_statuses)"
  by auto

lemma post_hazards_refused:
  assumes "authenticate verify req = Inr u"
    and "\<not> (owner_accepted (db s) (user_id u) \<and> report_binds (body req))"
  shows "post_hazards verify now req s =
           \<lparr>response = Response 500 ErrorPage, sent = [], state = s\<rparr>"
  using assms
  by (auto simp: post_hazards_def insert_hazard_def owner_accepted_def report_binds_def)

lemma post_hazards_ok:
  assumes "authenticate verify req = Inr u" and "owner_accepted (db s) (user_id u)"
    and "report_binds (body req)"
  shows "\<exists>r. post_hazards verify now req s =
               \<lparr>response = Response 200 (JHazard r),
                sent = broadcast (clients s) (WSMessage ''NEW_HAZARD'' (Some r)),
                state = s\<lparr>db := (db s)\<lparr>hazards := hazards (db s) @ [r]\<rparr>\<rparr>\<rparr>
           \<and> select_hazard ((db s)\<lparr>hazards := hazards (db s) @ [r]\<rparr>) (Some (id_h r)) = Some r
           \<and> userId r = user_id u
           \<and> type_h r = bound (body req ''type'') \<and> location r = bound (body req ''location'')
           \<and> riskLevel r = bound (body req ''riskLevel'')
           \<and> description r = bound (body req ''description'')
           \<and> imageUrl r = bound (body req ''imageUrl'')
           \<and> status r = Some ''open'' \<and> remarks r = None \<and> createdAt r = now"
proof -
  let ?r = "\<lparr>id_h = lastInsertRowid (map id_h (hazards (db s))), userId = user_id u,
             type_h = bound (body req ''type''), location = bound (body req ''location''),
             riskLevel = bound (body req ''riskLevel''),
             description = bound (body req ''description''),
             imageUrl = bound (body req ''imageUrl''), status = Some ''open'', remarks = None,
             createdAt = now\<rparr>"
  have fresh: "\<forall>h\<in>set (hazards (db s)). \<not> Some (id_h h) = Some (id_h ?r)"
    using lastInsertRowid_fresh [of _ "map id_h (hazards (db s))"] by fastforce
  have sel: "select_hazard ((db s)\<lparr>hazards := hazards (db s) @ [?r]\<rparr>) (Some (id_h ?r)) = Some ?r"
    unfolding select_hazard_def using fresh by (simp add: find_snoc_fresh)
  have "post_hazards verify now req s =
          \<lparr>response = Response 200 (JHazard ?r),
           sent = broadcast (clients s) (WSMessage ''NEW_HAZARD'' (Some ?r)),
           state = s\<lparr>db := (db s)\<lparr>hazards := hazards (db s) @ [?r]\<rparr>\<rparr>\<rparr>"
    using assms sel
    by (simp add: post_hazards_def insert_hazard_def owner_accepted_def report_binds_def
        Let_def json_hazard_def)
  with sel show ?thesis
    by (intro exI [of _ ?r]) simp
qed

lemma post_hazards_db:
  "db (state (post_hazards verify now req s)) = db s
   \<or> (\<exists>r. status r = Some ''open''
          \<and> db (state (post_hazards verify now req s)) = (db s)\<lparr>hazards := hazards (db s) @ [r]\<rparr>)"
proof (cases "authenticate verify req")
  case (Inl r)
  then show ?thesis by (simp add: post_hazards_unauthenticated)
next
  case (Inr u)
  show ?thesis
  proof (cases "owner_accepted (db s) (user_id u) \<and> report_binds (body req)")
    case True
    then have "owner_accepted (db s) (user_id u)" and "report_binds (body req)" by simp_all
    from post_hazards_ok [OF Inr this, of now] show ?thesis by auto
  next
    case False
    show ?thesis using post_hazards_refused [OF Inr False, of now] by simp
  qed
qed

lemma patch_hazards_id_unbound:
  assumes "authenticate verify req = Inr u" and "user_role u = ''admin''"
    and "\<not> update_binds (body req)"
  shows "patch_hazards_id verify req s =
           \<lparr>response = Response 500 ErrorPage, sent = [], state = s\<rparr>"
  using assms by (auto simp: patch_hazards_id_def isAdmin_def update_binds_def)

lemma patch_hazards_id_db:
  "db (state (patch_hazards_id verify req s)) = db s
   \<or> (\<exists>u. authenticate verify req = Inr u \<and> user_role u = ''admin''
          \<and> update_binds (body req)
          \<and> db (state (patch_hazards_id verify req s)) =
              update_hazard (db s) (bound (body req ''status'')) (bound (body req ''remarks''))
                (params_id req))"
  by (cases "authenticate verify req")
     (auto simp: patch_hazards_id_def isAdmin_def update_binds_def Let_def)

lemma post_auth_register_hazards:
  "hazards (db (state (post_auth_register hashedPassword req s))) = hazards (db s)"
  by (simp add: post_auth_register_def insert_user_def split: option.splits json_value.splits)

section \<open>Invariants of the store\<close>

text \<open>
  With the foreign key enforced, every store reached from start-up has unique account ids
  and only reports owned by accounts: the premises of the administrator's listing below.
\<close>

lemma insert_user_wf:
  assumes "store_wf d" and "insert_user d name pw r = Some d'"
  shows "store_wf d'"
proof -
  have "lastInsertRowid (map id_u (users d)) \<notin> set (map id_u (users d))"
    using lastInsertRowid_fresh [of "lastInsertRowid (map id_u (users d))" "map id_u (users d)"]
    by blast
  with assms show ?thesis
    by (auto simp: store_wf_def insert_user_def users_pk_def owner_valid_def list_all_iff
        split: if_splits)
qed

lemma post_auth_register_wf:
  "store_wf (db s) \<Longrightarrow> store_wf (db (state (post_auth_register hashedPassword req s)))"
  by (auto simp: post_auth_register_def insert_user_wf split: option.splits json_value.splits)

lemma post_hazards_wf:
  assumes "store_wf (db s)"
  shows "store_wf (db (state (post_hazards verify now req s)))"
proof (cases "authenticate verify req")
  case (Inl r)
  with assms show ?thesis by (simp add: post_hazards_unauthenticated)
next
  case (Inr u)
  show ?thesis
  proof (cases "owner_accepted (db s) (user_id u) \<and> report_binds (body req)")
    case False
    with assms post_hazards_refused [OF Inr False, of now] show ?thesis by simp
  next
    case True
    then have ok: "owner_accepted (db s) (user_id u)" and binds: "report_binds (body req)"
      by simp_all
    from assms ok have "user_id u \<in> set (map id_u (users (db s)))"
      by (simp add: owner_accepted_def store_wf_def)
    with assms post_hazards_ok [OF Inr ok binds, of now] show ?thesis
      by (auto simp: store_wf_def users_pk_def owner_valid_def)
  qed
qed

lemma update_hazard_wf: "store_wf d \<Longrightarrow> store_wf (update_hazard d st rm i)"
  by (auto simp: store_wf_def users_pk_def owner_valid_def update_hazard_def list_all_iff)

lemma patch_hazards_id_wf:
  "store_wf (db s) \<Longrightarrow> store_wf (db (state (patch_hazards_id verify req s)))"
  using patch_hazards_id_db [of verify req s] by (auto simp: update_hazard_wf)

lemma handle_wf: "store_wf (db s) \<Longrightarrow> store_wf (db (handle verify e s))"
  by (cases e)
     (simp_all add: ws_connection_def ws_readyState_def ws_close_def post_auth_register_wf
        post_hazards_wf patch_hazards_id_wf get_hazards_def split: sum.splits)

lemma run_wf: "store_wf (db s) \<Longrightarrow> store_wf (db (run verify es s))"
  by (induction es arbitrary: s) (simp_all add: handle_wf)

lemma startServer_wf: "store_wf (db (startServer True hashedPassword))"
  by (simp add: startServer_def seed_admin_def empty_db_def insert_user_def store_wf_def
      users_pk_def owner_valid_def)

lemma reachable_owner_valid:
  "owner_valid (db (run verify es (startServer True hashedPassword)))"
  "users_pk (db (run verify es (startServer True hashedPassword)))"
  using run_wf [OF startServer_wf, of verify es hashedPassword] by (simp_all add: store_wf_def)

section \<open>Status updates\<close>

text \<open>
  Claim C1. A status update whose session is not an administrator's is answered with 403
  (\<^verbatim>\<open>Forbidden\<close>, the specification's \<open>AuthorizationError\<close>), sends nothing, and leaves the
  whole server state, and so every stored report with its status and remarks, as it was.
\<close>

theorem update_forbidden:
  assumes "authenticate verify req = Inr u" and "user_role u \<noteq> ''admin''"
  shows "patch_hazards_id verify req s =
           \<lparr>response = Response 403 (JError ''Forbidden''), sent = [], state = s\<rparr>"
  using assms by (simp add: patch_hazards_id_def isAdmin_def)

text \<open>Alice, an employee, sends the administrator's update of the spill report.\<close>

theorem update_forbidden_witness:
  "authenticate sample_verify (dispatch_crew\<lparr>cookies_token := Some ''alice-token''\<rparr>) =
     Inr \<lparr>user_id = 2, user_name = Some ''alice'', user_role = ''user''\<rparr>
   \<and> user_role \<lparr>user_id = 2, user_name = Some ''alice'', user_role = ''user''\<rparr> \<noteq> ''admin''
   \<and> patch_hazards_id sample_verify (dispatch_crew\<lparr>cookies_token := Some ''alice-token''\<rparr>)
        server_spill =
       \<lparr>response = Response 403 (JError ''Forbidden''), sent = [], state = server_spill\<rparr>"
proof -
  have a: "authenticate sample_verify (dispatch_crew\<lparr>cookies_token := Some ''alice-token''\<rparr>) =
             Inr \<lparr>user_id = 2, user_name = Some ''alice'', user_role = ''user''\<rparr>"
    by (rule authenticate_alice)
  have b: "user_role \<lparr>user_id = 2, user_name = Some ''alice'', user_role = ''user''\<rparr> \<noteq> ''admin''"
    by simp
  show ?thesis
    using a b update_forbidden [OF a b, of server_spill] by simp
qed

text \<open>
  Claim C2. A status update by an administrator on a report that exists, asking for one
  of \<^verbatim>\<open>open\<close>, \<^verbatim>\<open>in progress\<close>, \<^verbatim>\<open>closed\<close>, is answered with 200 and the record, whose
  status and remarks are those of the request, whatever they were before (the case where
  the status does not change included); the record returned is the one the store now
  holds under that id. The remarks are any value the statement binds: text is stored as
  it is, absent remarks as \<^verbatim>\<open>NULL\<close>.
\<close>

theorem update_by_admin:
  assumes "authenticate verify req = Inr u" and "user_role u = ''admin''"
    and "params_id req = Some i" and "i \<in> set (map id_h (hazards (db s)))"
    and "body req ''status'' = Some (JString st)" and "st \<in> set hazard_statuses"
    and "bindable (body req ''remarks'')"
  shows "\<exists>r. response (patch_hazards_id verify req s) = Response 200 (JHazard r)
           \<and> id_h r = i \<and> status r = Some st \<and> remarks r = bound (body req ''remarks'')
           \<and> select_hazard (db (state (patch_hazards_id verify req s))) (Some i) = Some r"
proof -
  obtain r where r:
    "select_hazard (update_hazard (db s) (Some st) (bound (body req ''remarks'')) (Some i))
       (Some i) = Some r"
    "status r = Some st" "remarks r = bound (body req ''remarks'')" "id_h r = i"
    using update_hazard_select [OF assms(4)] by blast
  show ?thesis
    using assms(1,2,3,5,7) r
    by (simp add: patch_hazards_id_def isAdmin_def Let_def json_hazard_def)
qed

text \<open>
  The scenario of the specification: the administrator moves the spill report to
  \<^verbatim>\<open>in progress\<close>.
\<close>

theorem update_by_admin_witness:
  "authenticate sample_verify dispatch_crew =
     Inr \<lparr>user_id = 1, user_name = Some ''admin'', user_role = ''admin''\<rparr>
   \<and> params_id dispatch_crew = Some 1 \<and> 1 \<in> set (map id_h (hazards (db server_spill)))
   \<and> body dispatch_crew ''status'' = Some (JString ''in progress'')
   \<and> ''in progress'' \<in> set hazard_statuses
   \<and> bindable (body dispatch_crew ''remarks'')
   \<and> (\<exists>r. response (patch_hazards_id sample_verify dispatch_crew server_spill) =
             Response 200 (JHazard r)
          \<and> id_h r = 1 \<and> status r = Some ''in progress''
          \<and> remarks r = Some ''Cleanup crew dispatched''
          \<and> select_hazard (db (state (patch_hazards_id sample_verify dispatch_crew server_spill)))
               (Some 1) = Some r)"
proof -
  have a: "authenticate sample_verify dispatch_crew =
             Inr \<lparr>user_id = 1, user_name = Some ''admin'', user_role = ''admin''\<rparr>"
    by (simp add: authenticate_def sample_verify_def dispatch_crew_def)
  have b: "user_role \<lparr>user_id = 1, user_name = Some ''admin'', user_role = ''admin''\<rparr> = ''admin''"
    by simp
  have c: "params_id dispatch_crew = Some 1" by (simp add: dispatch_crew_def)
  have d: "1 \<in> set (map id_h (hazards (db server_spill)))"
    by (simp add: server_spill_eq spill_def)
  have e: "body dispatch_crew ''status'' = Some (JString ''in progress'')"
    by (simp add: dispatch_crew_def)
  have f: "''in progress'' \<in> set hazard_statuses" by (simp add: hazard_statuses_def)
  have g: "body dispatch_crew ''remarks'' = Some (JString ''Cleanup crew dispatched'')"
    by (simp add: dispatch_crew_def)
  have h: "bindable (body dispatch_crew ''remarks'')" by (simp add: g)
  show ?thesis
    using a c d e f h update_by_admin [OF a b c d e f h] by (simp add: g)
qed

text \<open>
  Claim C3 as stated fails. The handler has no branch for a missing report: the
  administrator's update of report 5, which the store does not hold, is answered with
  200 and an empty body, not with 404.
\<close>

theorem update_absent_counterexample:
  "authenticate sample_verify (dispatch_crew\<lparr>params_id := Some 5\<rparr>) =
     Inr \<lparr>user_id = 1, user_name = Some ''admin'', user_role = ''admin''\<rparr>
   \<and> select_hazard (db server_spill) (Some 5) = None
   \<and> response (patch_hazards_id sample_verify (dispatch_crew\<lparr>params_id := Some 5\<rparr>) server_spill)
       = Response 200 NoBody
   \<and> status_code (response (patch_hazards_id sample_verify (dispatch_crew\<lparr>params_id := Some 5\<rparr>)
        server_spill)) \<noteq> 404"
  by (simp add: server_spill_eq spill_def patch_hazards_id_def authenticate_def sample_verify_def
      dispatch_crew_def isAdmin_def update_hazard_def select_hazard_def json_hazard_def)

text \<open>
  Claim C3, amended. A status update by an administrator for an id the store does not
  hold is never answered with 404: when its status and remarks are values the statement
  binds, it is answered with 200 and no record; and in every case no record is created
  or modified.
\<close>

theorem update_absent:
  assumes "authenticate verify req = Inr u" and "user_role u = ''admin''"
    and "select_hazard (db s) (params_id req) = None"
  shows "status_code (response (patch_hazards_id verify req s)) \<noteq> 404
         \<and> (update_binds (body req) \<longrightarrow>
              response (patch_hazards_id verify req s) = Response 200 NoBody)
         \<and> state (patch_hazards_id verify req s) = s"
proof (cases "update_binds (body req)")
  case True
  with assms(1,2) update_hazard_absent [OF assms(3)]
  have "patch_hazards_id verify req s =
          \<lparr>response = Response 200 NoBody,
           sent = broadcast (clients s) (WSMessage ''STATUS_UPDATE'' None),
           state = s\<rparr>"
    by (simp add: patch_hazards_id_def isAdmin_def update_binds_def Let_def json_hazard_def)
  then show ?thesis by simp
next
  case False
  from patch_hazards_id_unbound [OF assms(1,2) False, of s] False show ?thesis by simp
qed

theorem update_absent_witness:
  "authenticate sample_verify (dispatch_crew\<lparr>params_id := Some 5\<rparr>) =
     Inr \<lparr>user_id = 1, user_name = Some ''admin'', user_role = ''admin''\<rparr>
   \<and> select_hazard (db server_spill) (params_id (dispatch_crew\<lparr>params_id := Some 5\<rparr>)) = None
   \<and> update_binds (body (dispatch_crew\<lparr>params_id := Some 5\<rparr>))
   \<and> response (patch_hazards_id sample_verify (dispatch_crew\<lparr>params_id := Some 5\<rparr>) server_spill)
       = Response 200 NoBody
   \<and> state (patch_hazards_id sample_verify (dispatch_crew\<lparr>params_id := Some 5\<rparr>) server_spill)
       = server_spill"
proof -
  have a: "authenticate sample_verify (dispatch_crew\<lparr>params_id := Some 5\<rparr>) =
             Inr \<lparr>user_id = 1, user_name = Some ''admin'', user_role = ''admin''\<rparr>"
    by (simp add: authenticate_def sample_verify_def dispatch_crew_def)
  have b: "user_role \<lparr>user_id = 1, user_name = Some ''admin'', user_role = ''admin''\<rparr> = ''admin''"
    by simp
  have c: "select_hazard (db server_spill) (params_id (dispatch_crew\<lparr>params_id := Some 5\<rparr>)) = None"
    by (simp add: server_spill_eq spill_def select_hazard_def)
  have d: "update_binds (body (dispatch_crew\<lparr>params_id := Some 5\<rparr>))"
    by (simp add: update_binds_def dispatch_crew_def)
  show ?thesis
    using a c d update_absent [OF a b c] by simp
qed

section \<open>Listing reports\<close>

text \<open>
  Claim C4. For a viewer who is not an administrator, the listing holds only reports
  whose owner is the viewer's account: it is exactly the viewer's own reports of the
  store, whatever the store holds.
\<close>

theorem list_employee:
  assumes "authenticate verify req = Inr u" and "user_role u \<noteq> ''admin''"
  shows "\<exists>rows. get_hazards verify req s =
                  \<lparr>response = Response 200 (JHazards rows), sent = [], state = s\<rparr>
           \<and> (\<forall>h\<in>set rows. userId h = user_id u)
           \<and> set rows = {h \<in> set (hazards (db s)). userId h = user_id u}"
  using assms by (auto simp: get_hazards_def select_hazards_of_def set_order_by_desc)

theorem list_employee_witness:
  "authenticate sample_verify alice_lists =
     Inr \<lparr>user_id = 2, user_name = Some ''alice'', user_role = ''user''\<rparr>
   \<and> (\<exists>rows. get_hazards sample_verify alice_lists server_spill =
                \<lparr>response = Response 200 (JHazards rows), sent = [], state = server_spill\<rparr>
         \<and> (\<forall>h\<in>set rows. userId h = 2)
         \<and> set rows = {spill})"
proof -
  have a: "authenticate sample_verify alice_lists =
             Inr \<lparr>user_id = 2, user_name = Some ''alice'', user_role = ''user''\<rparr>"
    by (simp add: authenticate_def sample_verify_def alice_lists_def)
  have b: "user_role \<lparr>user_id = 2, user_name = Some ''alice'', user_role = ''user''\<rparr> \<noteq> ''admin''"
    by simp
  have c: "{h \<in> set (hazards (db server_spill)). userId h = 2} = {spill}"
    by (auto simp: server_spill_eq spill_def)
  show ?thesis
    using a c list_employee [OF a b, of server_spill] by simp
qed

text \<open>
  Claim C5. On a store where every report's owner is an account (and account ids are
  the primary key of their table), an administrator's listing holds every report of the
  store exactly once, each with the username of the account whose id is the report's
  owner, newest first by creation timestamp.
\<close>

theorem list_administrator:
  assumes "authenticate verify req = Inr u" and "user_role u = ''admin''"
    and "owner_valid (db s)" and "users_pk (db s)"
  shows "\<exists>rows. get_hazards verify req s =
                  \<lparr>response = Response 200 (JHazardsReporter rows), sent = [], state = s\<rparr>
           \<and> mset (map fst rows) = mset (hazards (db s))
           \<and> (\<forall>row\<in>set rows. \<exists>a\<in>set (users (db s)).
                  id_u a = userId (fst row) \<and> snd row = username a)
           \<and> sorted_wrt (\<lambda>a b. b \<le> a) (map (\<lambda>row. createdAt (fst row)) rows)"
proof -
  let ?joined = "concat (map (\<lambda>h. map (\<lambda>u. (h, username u))
                     (filter (\<lambda>u. userId h = id_u u) (users (db s)))) (hazards (db s)))"
  let ?rows = "select_hazards_reporter (db s)"
  have rows: "?rows = order_by_desc (\<lambda>row. createdAt (fst row)) ?joined"
    by (simp add: select_hazards_reporter_def)
  have "get_hazards verify req s =
          \<lparr>response = Response 200 (JHazardsReporter ?rows), sent = [], state = s\<rparr>"
    using assms(1,2) by (simp add: get_hazards_def)
  moreover have "mset (map fst ?rows) = mset (hazards (db s))"
  proof -
    have "map fst ?joined = hazards (db s)"
      using assms(3,4) by (intro join_one_row_each) (simp_all add: owner_valid_def users_pk_def list_all_iff)
    moreover have "mset (map fst ?rows) = mset (map fst ?joined)"
      by (simp add: rows mset_order_by_desc)
    ultimately show ?thesis by simp
  qed
  moreover have "\<forall>row\<in>set ?rows. \<exists>a\<in>set (users (db s)).
                   id_u a = userId (fst row) \<and> snd row = username a"
    using join_reporter [of _ "users (db s)" "hazards (db s)"]
    by (simp add: rows set_order_by_desc)
  moreover have "sorted_wrt (\<lambda>a b. b \<le> a) (map (\<lambda>row. createdAt (fst row)) ?rows)"
    unfolding rows by (rule sorted_order_by_desc)
  ultimately show ?thesis by blast
qed

theorem list_administrator_witness:
  "authenticate sample_verify admin_lists =
     Inr \<lparr>user_id = 1, user_name = Some ''admin'', user_role = ''admin''\<rparr>
   \<and> owner_valid (db server_cable) \<and> users_pk (db server_cable)
   \<and> (\<exists>rows. get_hazards sample_verify admin_lists server_cable =
                  \<lparr>response = Response 200 (JHazardsReporter rows), sent = [], state = server_cable\<rparr>
           \<and> mset (map fst rows) = mset [spill, cable]
           \<and> (\<forall>row\<in>set rows. \<exists>a\<in>set (users (db server_cable)).
                  id_u a = userId (fst row) \<and> snd row = username a)
           \<and> sorted_wrt (\<lambda>a b. b \<le> a) (map (\<lambda>row. createdAt (fst row)) rows))"
proof -
  have a: "authenticate sample_verify admin_lists =
             Inr \<lparr>user_id = 1, user_name = Some ''admin'', user_role = ''admin''\<rparr>"
    by (simp add: authenticate_def sample_verify_def admin_lists_def)
  have b: "user_role \<lparr>user_id = 1, user_name = Some ''admin'', user_role = ''admin''\<rparr> = ''admin''"
    by simp
  have c: "owner_valid (db server_cable)"
    by (simp add: server_cable_eq server_spill_eq owner_valid_def spill_def cable_def)
  have d: "users_pk (db server_cable)"
    by (simp add: server_cable_eq server_spill_eq users_pk_def)
  have e: "hazards (db server_cable) = [spill, cable]"
    by (simp add: server_cable_eq)
  show ?thesis
    using a c d list_administrator [OF a b c d] unfolding e by simp
qed

section \<open>Creating reports\<close>

text \<open>
  Claim C6 as stated fails. The server validates nothing: alice's report with an empty
  type, no location, no description and the risk level \<^verbatim>\<open>extreme\<close> is answered with 200 and
  stored.
\<close>

theorem create_unvalidated_counterexample:
  "\<not> valid_submission (body report_blank)
   \<and> authenticate sample_verify report_blank =
       Inr \<lparr>user_id = 2, user_name = Some ''alice'', user_role = ''user''\<rparr>
   \<and> status_code (response (post_hazards sample_verify ''2024-05-01 09:00:00'' report_blank
        server_alice)) = 200
   \<and> hazards (db (state (post_hazards sample_verify ''2024-05-01 09:00:00'' report_blank
        server_alice))) =
       [\<lparr>id_h = 1, userId = 2, type_h = Some [], location = None, riskLevel = Some ''extreme'',
         description = None, imageUrl = None, status = Some ''open'', remarks = None,
         createdAt = ''2024-05-01 09:00:00''\<rparr>]"
  by (simp add: valid_submission_def non_empty_def report_blank_def server_alice_eq
      post_hazards_def authenticate_def sample_verify_def insert_hazard_def lastInsertRowid_def
      select_hazard_def json_hazard_def)

text \<open>
  Claim C6, amended. A submission with an empty or missing type, location or
  description, or a risk level outside low, medium, high, from a session whose account the
  store accepts as owner, is never answered with 400: the server validates nothing. When
  each of type, location, risk level, description and image reference is a value the
  statement binds (text, a number, \<^verbatim>\<open>null\<close> or absent), it is answered with 200 and exactly
  one record is stored, holding text as it was submitted, a number as the text the column
  stores for it, and \<^verbatim>\<open>null\<close> or an absent field as \<^verbatim>\<open>NULL\<close>.
\<close>

theorem create_unvalidated:
  assumes "authenticate verify req = Inr u" and "owner_accepted (db s) (user_id u)"
    and "\<not> valid_submission (body req)"
  shows "status_code (response (post_hazards verify now req s)) \<noteq> 400
         \<and> (report_binds (body req) \<longrightarrow>
              (\<exists>r. response (post_hazards verify now req s) = Response 200 (JHazard r)
                 \<and> hazards (db (state (post_hazards verify now req s))) = hazards (db s) @ [r]
                 \<and> type_h r = bound (body req ''type'')
                 \<and> location r = bound (body req ''location'')
                 \<and> riskLevel r = bound (body req ''riskLevel'')
                 \<and> description r = bound (body req ''description'')
                 \<and> imageUrl r = bound (body req ''imageUrl'')))"
proof (cases "report_binds (body req)")
  case True
  from post_hazards_ok [OF assms(1,2) True, of now] show ?thesis by auto
next
  case False
  then have "\<not> (owner_accepted (db s) (user_id u) \<and> report_binds (body req))" by simp
  from post_hazards_refused [OF assms(1) this, of now] False show ?thesis by simp
qed

text \<open>
  Alice's blank report with the number 7 as its risk level: the record stored holds the
  text \<^verbatim>\<open>7.0\<close>.
\<close>

theorem create_unvalidated_witness:
  "authenticate sample_verify report_seven =
       Inr \<lparr>user_id = 2, user_name = Some ''alice'', user_role = ''user''\<rparr>
   \<and> owner_accepted (db server_alice) 2
   \<and> \<not> valid_submission (body report_seven)
   \<and> report_binds (body report_seven)
   \<and> (\<exists>r. response (post_hazards sample_verify ''2024-05-01 09:00:00'' report_seven server_alice)
             = Response 200 (JHazard r)
           \<and> hazards (db (state (post_hazards sample_verify ''2024-05-01 09:00:00'' report_seven
                server_alice))) = [r]
           \<and> type_h r = Some [] \<and> location r = None
           \<and> riskLevel r = Some ''7.0'' \<and> description r = None \<and> imageUrl r = None)"
proof -
  have a: "authenticate sample_verify report_seven =
             Inr \<lparr>user_id = 2, user_name = Some ''alice'', user_role = ''user''\<rparr>"
    by (simp add: authenticate_def sample_verify_def report_seven_def report_blank_def)
  have b: "owner_accepted (db server_alice)
             (user_id \<lparr>user_id = 2, user_name = Some ''alice'', user_role = ''user''\<rparr>)"
    by (simp add: owner_accepted_def server_alice_eq)
  have c: "\<not> valid_submission (body report_seven)"
    by (simp add: valid_submission_def non_empty_def report_seven_def report_blank_def)
  have d: "hazards (db server_alice) = []" by (simp add: server_alice_eq)
  have e: "bound (body report_seven ''type'') = Some []"
    "bound (body report_seven ''location'') = None"
    "bound (body report_seven ''riskLevel'') = Some ''7.0''"
    "bound (body report_seven ''description'') = None"
    "bound (body report_seven ''imageUrl'') = None"
    by (simp_all add: report_seven_def report_blank_def)
  have f: "report_binds (body report_seven)"
    by (simp add: report_binds_def report_seven_def report_blank_def)
  show ?thesis
    using a b c f create_unvalidated [OF a b c, of "''2024-05-01 09:00:00''"]
    unfolding d e by simp
qed

text \<open>
  The same report with \<^verbatim>\<open>true\<close> as its risk level: the insert throws, the answer is 500 and
  nothing is stored or sent.
\<close>

lemma post_hazards_report_true:
  "post_hazards sample_verify ''2024-05-01 09:00:00'' report_true server_alice =
     \<lparr>response = Response 500 ErrorPage, sent = [], state = server_alice\<rparr>"
  by (simp add: post_hazards_def authenticate_def sample_verify_def report_true_def
      report_blank_def)

text \<open>
  Claim C7. For a valid submission (type, location and description not empty, risk
  level low, medium or high; the optional image reference text or any other value the
  statement binds) from a session whose account the store accepts as owner, the record
  returned has status \<^verbatim>\<open>open\<close> and no remarks (\<^verbatim>\<open>NULL\<close>).
\<close>

theorem create_opens:
  assumes "authenticate verify req = Inr u" and "owner_accepted (db s) (user_id u)"
    and "valid_submission (body req)" and "bindable (body req ''imageUrl'')"
  shows "\<exists>r. response (post_hazards verify now req s) = Response 200 (JHazard r)
           \<and> status r = Some ''open'' \<and> remarks r = None"
  using post_hazards_ok [OF assms(1,2) valid_submission_binds [OF assms(3,4)], of now] by auto

theorem create_opens_witness:
  "authenticate sample_verify report_spill =
       Inr \<lparr>user_id = 2, user_name = Some ''alice'', user_role = ''user''\<rparr>
   \<and> owner_accepted (db server_alice) 2
   \<and> valid_submission (body report_spill)
   \<and> bindable (body report_spill ''imageUrl'')
   \<and> (\<exists>r. response (post_hazards sample_verify ''2024-05-01 09:00:00'' report_spill server_alice)
             = Response 200 (JHazard r)
           \<and> status r = Some ''open'' \<and> remarks r = None)"
proof -
  have a: "authenticate sample_verify report_spill =
             Inr \<lparr>user_id = 2, user_name = Some ''alice'', user_role = ''user''\<rparr>"
    by (simp add: authenticate_def sample_verify_def report_spill_def)
  have b: "owner_accepted (db server_alice)
             (user_id \<lparr>user_id = 2, user_name = Some ''alice'', user_role = ''user''\<rparr>)"
    by (simp add: owner_accepted_def server_alice_eq)
  have c: "valid_submission (body report_spill)"
    by (simp add: valid_submission_def non_empty_def report_spill_def risk_levels_def)
  have d: "bindable (body report_spill ''imageUrl'')"
    by (simp add: report_spill_def)
  show ?thesis
    using a b c d create_opens [OF a b c d, of "''2024-05-01 09:00:00''"] by simp
qed



section \<open>The lifecycle states\<close>

lemma status_ok_snoc:
  "status_ok d \<Longrightarrow> status r = Some ''open'' \<Longrightarrow> status_ok (d\<lparr>hazards := hazards d @ [r]\<rparr>)"
  by (simp add: status_ok_def hazard_statuses_def)

lemma status_ok_update:
  "status_ok d \<Longrightarrow> st \<in> set (map Some hazard_statuses) \<Longrightarrow> status_ok (update_hazard d st rm i)"
  by (auto simp: status_ok_def update_hazard_def list_all_iff)

lemma status_ok_cong: "hazards d' = hazards d \<Longrightarrow> status_ok d' = status_ok d"
  by (simp add: status_ok_def)

lemma handle_status_ok:
  assumes "status_ok (db s)" and "asks_lifecycle_state verify e"
  shows "status_ok (db (handle verify e s))"
proof (cases e)
  case (WsConnection c)
  with assms show ?thesis by (simp add: ws_connection_def)
next
  case (WsReadyState c r)
  with assms show ?thesis by (simp add: ws_readyState_def)
next
  case (WsClose c)
  with assms show ?thesis by (simp add: ws_close_def)
next
  case (PostAuthRegister hp req)
  with assms show ?thesis
    by (simp add: status_ok_cong [OF post_auth_register_hazards])
next
  case (PostHazards now req)
  with assms(1) post_hazards_db [of verify now req s] show ?thesis
    by (auto simp: status_ok_snoc)
next
  case (GetHazards req)
  with assms show ?thesis
    by (simp add: get_hazards_def split: sum.splits)
next
  case (PatchHazardsId req)
  with assms patch_hazards_id_db [of verify req s]
    bound_lifecycle_state [of "body req ''status''"] show ?thesis
    by (auto simp: status_ok_update)
qed

lemma run_status_ok:
  "status_ok (db s) \<Longrightarrow> list_all (asks_lifecycle_state verify) es
     \<Longrightarrow> status_ok (db (run verify es s))"
  by (induction es arbitrary: s) (simp_all add: handle_status_ok)

lemma startServer_status_ok: "status_ok (db (startServer fk hashedPassword))"
  by (simp add: startServer_def seed_admin_def empty_db_def insert_user_def status_ok_def)

text \<open>
  Claim C8 as stated fails. The update stores the status it is given: after alice's
  report, the administrator's update to \<^verbatim>\<open>resolved\<close> leaves a stored report whose status is
  none of the three lifecycle states.
\<close>

theorem lifecycle_states_counterexample:
  "map status (hazards (db (run sample_verify
       [PostAuthRegister ''hash-of-pw1'' register_alice,
        PostHazards ''2024-05-01 09:00:00'' report_spill,
        PatchHazardsId mark_resolved]
       (startServer True ''hash-of-admin123'')))) = [Some ''resolved'']
   \<and> \<not> status_ok (db (run sample_verify
       [PostAuthRegister ''hash-of-pw1'' register_alice,
        PostHazards ''2024-05-01 09:00:00'' report_spill,
        PatchHazardsId mark_resolved]
       (startServer True ''hash-of-admin123'')))"
  by (simp add: startServer_def seed_admin_def empty_db_def insert_user_def lastInsertRowid_def
      post_auth_register_def register_alice_def post_hazards_def authenticate_def
      sample_verify_def report_spill_def insert_hazard_def select_hazard_def json_hazard_def
      broadcast_def patch_hazards_id_def isAdmin_def mark_resolved_def update_hazard_def
      status_ok_def hazard_statuses_def)

text \<open>
  Claim C8, amended. In every store state reached from start-up by events in which
  each status update that passes the administrator check asks for one of \<^verbatim>\<open>open\<close>,
  \<^verbatim>\<open>in progress\<close>, \<^verbatim>\<open>closed\<close>, the status of every stored report is one of these three: it is
  \<^verbatim>\<open>open\<close> at creation and every such update keeps it among them.
\<close>

theorem lifecycle_states_kept:
  assumes "list_all (asks_lifecycle_state verify) es"
  shows "status_ok (db (run verify es (startServer fk hashedPassword)))"
  using startServer_status_ok assms by (rule run_status_ok)

theorem lifecycle_states_kept_witness:
  "list_all (asks_lifecycle_state sample_verify)
     [PostAuthRegister ''hash-of-pw1'' register_alice,
      PostHazards ''2024-05-01 09:00:00'' report_spill,
      PatchHazardsId dispatch_crew]
   \<and> status_ok (db (run sample_verify
       [PostAuthRegister ''hash-of-pw1'' register_alice,
        PostHazards ''2024-05-01 09:00:00'' report_spill,
        PatchHazardsId dispatch_crew]
       (startServer True ''hash-of-admin123'')))
   \<and> map status (hazards (db (run sample_verify
       [PostAuthRegister ''hash-of-pw1'' register_alice,
        PostHazards ''2024-05-01 09:00:00'' report_spill,
        PatchHazardsId dispatch_crew]
       (startServer True ''hash-of-admin123'')))) = [Some ''in progress'']"
proof -
  have a: "list_all (asks_lifecycle_state sample_verify)
     [PostAuthRegister ''hash-of-pw1'' register_alice,
      PostHazards ''2024-05-01 09:00:00'' report_spill,
      PatchHazardsId dispatch_crew]"
    by (simp add: authenticate_def sample_verify_def dispatch_crew_def hazard_statuses_def)
  have b: "map status (hazards (db (run sample_verify
       [PostAuthRegister ''hash-of-pw1'' register_alice,
        PostHazards ''2024-05-01 09:00:00'' report_spill,
        PatchHazardsId dispatch_crew]
       (startServer True ''hash-of-admin123'')))) = [Some ''in progress'']"
    by (simp add: startServer_def seed_admin_def empty_db_def insert_user_def lastInsertRowid_def
      post_auth_register_def register_alice_def post_hazards_def authenticate_def
      sample_verify_def report_spill_def insert_hazard_def select_hazard_def json_hazard_def
      broadcast_def patch_hazards_id_def isAdmin_def dispatch_crew_def update_hazard_def)
  show ?thesis
    using a b lifecycle_states_kept [OF a, of True "''hash-of-admin123''"] by simp
qed

section \<open>Broadcasts\<close>

text \<open>
  Claim C9. A report creation answered with 200 hands one \<^verbatim>\<open>NEW_HAZARD\<close> message, and a
  status update answered with 200 and a record hands one \<^verbatim>\<open>STATUS_UPDATE\<close> message, to each
  registered connection whose transport is open and to no other; the payload is the record
  of the response, read from the store after the write, and it is the record the store
  holds under its id afterwards.
\<close>

theorem broadcasts:
  "(response (post_hazards verify now req s) = Response 200 j \<longrightarrow>
      (\<exists>r. j = JHazard r
         \<and> select_hazard (db (state (post_hazards verify now req s))) (Some (id_h r)) = Some r
         \<and> sent (post_hazards verify now req s) =
             map (\<lambda>c. (conn c, WSMessage ''NEW_HAZARD'' (Some r)))
                 (filter (\<lambda>c. readyState c = OPEN) (clients s))))
   \<and> (response (patch_hazards_id verify req' s) = Response 200 (JHazard r') \<longrightarrow>
        select_hazard (db (state (patch_hazards_id verify req' s))) (Some (id_h r')) = Some r'
        \<and> sent (patch_hazards_id verify req' s) =
            map (\<lambda>c. (conn c, WSMessage ''STATUS_UPDATE'' (Some r')))
                (filter (\<lambda>c. readyState c = OPEN) (clients s)))"
proof (rule conjI; rule impI)
  assume ok: "response (post_hazards verify now req s) = Response 200 j"
  show "\<exists>r. j = JHazard r
         \<and> select_hazard (db (state (post_hazards verify now req s))) (Some (id_h r)) = Some r
         \<and> sent (post_hazards verify now req s) =
             map (\<lambda>c. (conn c, WSMessage ''NEW_HAZARD'' (Some r)))
                 (filter (\<lambda>c. readyState c = OPEN) (clients s))"
  proof (cases "authenticate verify req")
    case (Inl r)
    with ok authenticate_Inl [OF Inl] show ?thesis
      by (simp add: post_hazards_unauthenticated)
  next
    case (Inr u)
    show ?thesis
    proof (cases "owner_accepted (db s) (user_id u) \<and> report_binds (body req)")
      case False
      with ok post_hazards_refused [OF Inr False, of now] show ?thesis by simp
    next
      case True
      then have "owner_accepted (db s) (user_id u)" and "report_binds (body req)" by simp_all
      from ok post_hazards_ok [OF Inr this, of now] show ?thesis
        by (auto simp: broadcast_def)
    qed
  qed
next
  assume ok: "response (patch_hazards_id verify req' s) = Response 200 (JHazard r')"
  let ?d = "update_hazard (db s) (bound (body req' ''status'')) (bound (body req' ''remarks''))
              (params_id req')"
  from ok authenticate_Inl [of verify req']
  have run: "patch_hazards_id verify req' s =
               \<lparr>response = Response 200 (json_hazard (select_hazard ?d (params_id req'))),
                sent = broadcast (clients s)
                         (WSMessage ''STATUS_UPDATE'' (select_hazard ?d (params_id req'))),
                state = s\<lparr>db := ?d\<rparr>\<rparr>"
    by (auto simp: patch_hazards_id_def isAdmin_def Let_def split: sum.splits if_splits)
  with ok have sel: "select_hazard ?d (params_id req') = Some r'"
    by (simp add: json_hazard_def split: option.splits)
  then have "params_id req' = Some (id_h r')"
    by (rule select_hazard_Some)
  with run sel
  show "select_hazard (db (state (patch_hazards_id verify req' s))) (Some (id_h r')) = Some r'
        \<and> sent (patch_hazards_id verify req' s) =
            map (\<lambda>c. (conn c, WSMessage ''STATUS_UPDATE'' (Some r')))
                (filter (\<lambda>c. readyState c = OPEN) (clients s))"
    by (simp add: broadcast_def)
qed

text \<open>
  With connection 7 open and connection 8 closing, the administrator's cable report and
  the update of the spill report each reach connection 7 alone.
\<close>

theorem broadcasts_witness:
  "response (post_hazards sample_verify ''2024-05-02 08:30:00'' report_cable server_spill) =
     Response 200 (JHazard cable)
   \<and> response (patch_hazards_id sample_verify dispatch_crew server_spill) =
       Response 200 (JHazard (spill\<lparr>status := Some ''in progress'',
                                    remarks := Some ''Cleanup crew dispatched''\<rparr>))
   \<and> select_hazard
        (db (state (post_hazards sample_verify ''2024-05-02 08:30:00'' report_cable server_spill)))
        (Some 2) = Some cable
   \<and> sent (post_hazards sample_verify ''2024-05-02 08:30:00'' report_cable server_spill) =
       [(7, WSMessage ''NEW_HAZARD'' (Some cable))]
   \<and> select_hazard (db (state (patch_hazards_id sample_verify dispatch_crew server_spill)))
        (Some 1) =
       Some (spill\<lparr>status := Some ''in progress'', remarks := Some ''Cleanup crew dispatched''\<rparr>)
   \<and> sent (patch_hazards_id sample_verify dispatch_crew server_spill) =
       [(7, WSMessage ''STATUS_UPDATE''
              (Some (spill\<lparr>status := Some ''in progress'',
                            remarks := Some ''Cleanup crew dispatched''\<rparr>)))]"
proof -
  have a: "response (post_hazards sample_verify ''2024-05-02 08:30:00'' report_cable server_spill) =
             Response 200 (JHazard cable)"
    by (simp add: server_spill_eq post_hazards_def authenticate_def sample_verify_def
        report_cable_def insert_hazard_def lastInsertRowid_def select_hazard_def json_hazard_def
        spill_def cable_def)
  have b: "response (patch_hazards_id sample_verify dispatch_crew server_spill) =
             Response 200 (JHazard (spill\<lparr>status := Some ''in progress'',
                                          remarks := Some ''Cleanup crew dispatched''\<rparr>))"
    by (simp add: server_spill_eq patch_hazards_id_def authenticate_def sample_verify_def
        dispatch_crew_def isAdmin_def update_hazard_def select_hazard_def json_hazard_def
        spill_def)
  have c: "filter (\<lambda>c. readyState c = OPEN) (clients server_spill) = [\<lparr>conn = 7, readyState = OPEN\<rparr>]"
    by (simp add: server_spill_eq)
  have ids: "id_h cable = 2" "id_h spill = 1"
    by (simp_all add: cable_def spill_def)
  show ?thesis
    using a b
      broadcasts [where verify = sample_verify and now = "''2024-05-02 08:30:00''"
        and req = report_cable and s = server_spill and j = "JHazard cable"
        and req' = dispatch_crew
        and r' = "spill\<lparr>status := Some ''in progress'',
                         remarks := Some ''Cleanup crew dispatched''\<rparr>"]
    by (simp add: c ids)
qed

end
